theory Spec2Isabelle
  imports Complex_Main "HOL-Library.Multiset"
begin

section \<open>Python values and strings\<close>

text \<open>
  The payloads, proposals and candidates of Mqtt-Palooza are Python dictionaries with
  string keys and dynamically typed values. \<open>pyval\<close> is the fragment of Python values
  they are built from; a dictionary is an association list in insertion order. Python
  floats are carried as reals (no rounding, no NaN, no infinities).
\<close>

datatype pyval =
    PNone
  | PBool bool
  | PInt int
  | PFloat real
  | PStr string
  | PList "pyval list"
  | PDict "(string \<times> pyval) list"

type_synonym pydict = "(string \<times> pyval) list"

datatype error =
    AttributeError string
  | KeyError string
  | IndexError
  | ValueError
  | TypeError

text \<open>Truth value of a Python object, as \<open>if x:\<close>, \<open>not x\<close> and \<open>or\<close> take it.\<close>

fun truthy :: "pyval \<Rightarrow> bool" where
  "truthy PNone = False"
| "truthy (PBool b) = b"
| "truthy (PInt i) = (i \<noteq> 0)"
| "truthy (PFloat r) = (r \<noteq> 0)"
| "truthy (PStr s) = (s \<noteq> [])"
| "truthy (PList xs) = (xs \<noteq> [])"
| "truthy (PDict d) = (d \<noteq> [])"

text \<open>\<open>key in d\<close> and \<open>d.get(key)\<close> / \<open>d.get(key, default)\<close> on a dictionary.\<close>

definition has_key :: "pydict \<Rightarrow> string \<Rightarrow> bool" where
  "has_key d k = (k \<in> set (map fst d))"

definition dict_get :: "pydict \<Rightarrow> string \<Rightarrow> pyval \<Rightarrow> pyval" where
  "dict_get d k dflt = (case map_of d k of None \<Rightarrow> dflt | Some v \<Rightarrow> v)"

subsection \<open>Strings\<close>

text \<open>
  Strings are ASCII character lists. \<open>lower\<close> is \<open>str.lower()\<close> on ASCII;
  \<open>startswith\<close>, \<open>py_find\<close>, \<open>py_in\<close> and \<open>py_count\<close> are \<open>str.startswith\<close>,
  \<open>str.find\<close> (\<open>None\<close> for \<open>-1\<close>), the substring test \<open>sub in s\<close> and
  \<open>str.count\<close> (non-overlapping occurrences, \<open>len(s) + 1\<close> for the empty pattern).
\<close>

definition lower_char :: "char \<Rightarrow> char" where
  "lower_char c =
     (case map_of (zip ''ABCDEFGHIJKLMNOPQRSTUVWXYZ'' ''abcdefghijklmnopqrstuvwxyz'') c of
        None \<Rightarrow> c
      | Some l \<Rightarrow> l)"

definition lower :: "string \<Rightarrow> string" where
  "lower s = map lower_char s"

fun startswith :: "string \<Rightarrow> string \<Rightarrow> bool" where
  "startswith s [] = True"
| "startswith [] (p # ps) = False"
| "startswith (c # cs) (p # ps) = (c = p \<and> startswith cs ps)"

fun py_find :: "string \<Rightarrow> string \<Rightarrow> nat option" where
  "py_find [] sub = (if sub = [] then Some 0 else None)"
| "py_find (c # cs) sub =
     (if startswith (c # cs) sub then Some 0 else map_option Suc (py_find cs sub))"

definition py_in :: "string \<Rightarrow> string \<Rightarrow> bool" where
  "py_in sub s = (py_find s sub \<noteq> None)"

fun count_occ :: "string \<Rightarrow> string \<Rightarrow> nat" where
  "count_occ [] sub = 0"
| "count_occ (c # cs) sub =
     (if startswith (c # cs) sub
      then Suc (count_occ (drop (length sub - 1) cs) sub)
      else count_occ cs sub)"

definition py_count :: "string \<Rightarrow> string \<Rightarrow> nat" where
  "py_count s sub = (if sub = [] then length s + 1 else count_occ s sub)"

subsection \<open>The string form of a value\<close>

text \<open>
  \<open>py_str v\<close> is \<open>str(v)\<close>, which for the containers is \<open>repr\<close>: a dictionary
  prints as \<open>{'k': v, ...}\<close> in insertion order, a string inside a container
  prints quoted (double quotes when it holds a single quote and no double quote) with
  backslash, the quote, newline, carriage return and tab escaped. The shortest
  round-trip digits of a float and the hexadecimal escapes of other control
  characters are not modelled: \<open>float_repr\<close> is left unspecified, and no result
  below evaluates it.
\<close>

definition digit_char :: "nat \<Rightarrow> char" where
  "digit_char n = ''0123456789'' ! n"

fun dec_nat :: "nat \<Rightarrow> string" where
  "dec_nat n = (if n < 10 then [digit_char n] else dec_nat (n div 10) @ [digit_char (n mod 10)])"

declare dec_nat.simps [simp del]

definition dec_int :: "int \<Rightarrow> string" where
  "dec_int i = (if i < 0 then CHR ''-'' # dec_nat (nat (- i)) else dec_nat (nat i))"

definition float_repr :: "real \<Rightarrow> string" where
  "float_repr r = (SOME s. s \<noteq> [])"

definition escape_char :: "char \<Rightarrow> char \<Rightarrow> string" where
  "escape_char q c =
     (if c = CHR 0x5C then [CHR 0x5C, CHR 0x5C]
      else if c = q then [CHR 0x5C, q]
      else if c = CHR 0x0A then [CHR 0x5C, CHR ''n'']
      else if c = CHR 0x0D then [CHR 0x5C, CHR ''r'']
      else if c = CHR 0x09 then [CHR 0x5C, CHR ''t'']
      else [c])"

definition str_repr :: "string \<Rightarrow> string" where
  "str_repr s =
     (if CHR 0x27 \<in> set s \<and> CHR 0x22 \<notin> set s
      then CHR 0x22 # concat (map (escape_char (CHR 0x22)) s) @ [CHR 0x22]
      else CHR 0x27 # concat (map (escape_char (CHR 0x27)) s) @ [CHR 0x27])"

fun join :: "string \<Rightarrow> string list \<Rightarrow> string" where
  "join sep [] = []"
| "join sep [x] = x"
| "join sep (x # y # ys) = x @ sep @ join sep (y # ys)"

fun py_repr :: "pyval \<Rightarrow> string" where
  "py_repr PNone = ''None''"
| "py_repr (PBool b) = (if b then ''True'' else ''False'')"
| "py_repr (PInt i) = dec_int i"
| "py_repr (PFloat r) = float_repr r"
| "py_repr (PStr s) = str_repr s"
| "py_repr (PList xs) = ''['' @ join '', '' (map py_repr xs) @ '']''"
| "py_repr (PDict d) =
     ''{'' @ join '', '' (map (\<lambda>kv. str_repr (fst kv) @ '': '' @ py_repr (snd kv)) d) @ ''}''"

definition py_str :: "pyval \<Rightarrow> string" where
  "py_str v = (case v of PStr s \<Rightarrow> s | _ \<Rightarrow> py_repr v)"

section \<open>The envelope (neural\_message.py)\<close>

datatype MessagePriority = CRITICAL | HIGH | NORMAL | LOW | BATCH

datatype FocusMode =
    RELEVANCE | EXTRACTION | ANALYSIS | SUMMARIZATION
  | REASONING | CREATIVE | VERIFICATION | NAVIGATION





record MessageFocus =
  mode :: FocusMode
  target_entities :: "string list"
  relevance_threshold :: real
  max_tokens :: int
  focus_keywords :: "string list"
  negative_keywords :: "string list"

record EnRouteContext =
  original_size :: int
  current_size :: int
  compression_ratio :: real
  relevance_score :: real
  filtered_elements :: "string list"
  focus_mode :: FocusMode
  ctx_timestamp :: real
  hops :: int
  refinements :: "pyval list"

record NeuralMessage =
  msg_id :: string
  topic :: string
  priority :: MessagePriority
  focus :: MessageFocus
  payload :: pydict
  msg_context :: EnRouteContext
  source :: string
  destination :: string
  timestamp :: real
  ttl_seconds :: int
  requires_ack :: bool
  correlation_id :: "string option"
  constitutional_compliance :: bool

text \<open>
  The dataclass constructors with their \<open>__post_init__\<close>: an argument left \<open>None\<close>
  takes its default, a timestamp of \<open>0.0\<close> is replaced by the clock's reading
  (\<open>time.time()\<close>, a parameter here), a missing id by a fresh one (\<open>uuid4\<close>, a parameter).
\<close>

definition MessageFocus_new :: "FocusMode option \<Rightarrow> string list option \<Rightarrow> real \<Rightarrow> int
    \<Rightarrow> string list option \<Rightarrow> string list option \<Rightarrow> MessageFocus" where
  "MessageFocus_new m te rt mt kw nkw =
     \<lparr>mode = (case m of None \<Rightarrow> EXTRACTION | Some x \<Rightarrow> x),
      target_entities = (case te of None \<Rightarrow> [] | Some x \<Rightarrow> x),
      relevance_threshold = rt,
      max_tokens = mt,
      focus_keywords = (case kw of None \<Rightarrow> [] | Some x \<Rightarrow> x),
      negative_keywords = (case nkw of None \<Rightarrow> [] | Some x \<Rightarrow> x)\<rparr>"

definition MessageFocus_default :: MessageFocus where
  "MessageFocus_default = MessageFocus_new None None 0.7 4096 None None"

definition EnRouteContext_new :: "real \<Rightarrow> int \<Rightarrow> int \<Rightarrow> real \<Rightarrow> real \<Rightarrow> string list option
    \<Rightarrow> FocusMode option \<Rightarrow> real \<Rightarrow> int \<Rightarrow> pyval list option \<Rightarrow> EnRouteContext" where
  "EnRouteContext_new now os cs cr rs fe fm ts h r =
     \<lparr>original_size = os,
      current_size = cs,
      compression_ratio = cr,
      relevance_score = rs,
      filtered_elements = (case fe of None \<Rightarrow> [] | Some x \<Rightarrow> x),
      focus_mode = (case fm of None \<Rightarrow> EXTRACTION | Some x \<Rightarrow> x),
      ctx_timestamp = (if ts = 0 then now else ts),
      hops = h,
      refinements = (case r of None \<Rightarrow> [] | Some x \<Rightarrow> x)\<rparr>"

definition EnRouteContext_default :: "real \<Rightarrow> EnRouteContext" where
  "EnRouteContext_default now = EnRouteContext_new now 0 0 0 0 None None 0 0 None"

definition NeuralMessage_new :: "string \<Rightarrow> real \<Rightarrow> real \<Rightarrow> string option \<Rightarrow> string
    \<Rightarrow> MessagePriority option \<Rightarrow> MessageFocus option \<Rightarrow> pydict option
    \<Rightarrow> EnRouteContext option \<Rightarrow> string \<Rightarrow> string \<Rightarrow> real \<Rightarrow> int \<Rightarrow> bool
    \<Rightarrow> string option \<Rightarrow> bool \<Rightarrow> NeuralMessage" where
  "NeuralMessage_new fresh_id now_ctx now_msg i t p f pl c s d ts ttl ack corr cc =
     \<lparr>msg_id = (case i of None \<Rightarrow> fresh_id | Some x \<Rightarrow> x),
      topic = t,
      priority = (case p of None \<Rightarrow> NORMAL | Some x \<Rightarrow> x),
      focus = (case f of None \<Rightarrow> MessageFocus_default | Some x \<Rightarrow> x),
      payload = (case pl of None \<Rightarrow> [] | Some x \<Rightarrow> x),
      msg_context = (case c of None \<Rightarrow> EnRouteContext_default now_ctx | Some x \<Rightarrow> x),
      source = s,
      destination = d,
      timestamp = (if ts = 0 then now_msg else ts),
      ttl_seconds = ttl,
      requires_ack = ack,
      correlation_id = corr,
      constitutional_compliance = cc\<rparr>"

subsection \<open>The wire codec\<close>



















section \<open>The message bus (neural\_message.py)\<close>

text \<open>
  A handler is a named callable; called on an envelope it may change the envelope in
  place and either returns or raises an \<open>Exception\<close> (it does not touch the bus).
  \<open>publish\<close> returns its result, the bus after the call, the envelope after the
  handlers and the calls it made, in order, each with its outcome.
\<close>

datatype outcome = Returns | Raises

record handler =
  hname :: string
  hcall :: "NeuralMessage \<Rightarrow> outcome \<times> NeuralMessage"

record MessageBus =
  broker_host :: string
  broker_port :: int
  subscribers :: "(string \<times> handler list) list"
  message_history :: "NeuralMessage list"
  max_history :: int

definition MessageBus_init :: "string \<Rightarrow> int \<Rightarrow> MessageBus" where
  "MessageBus_init host port =
     \<lparr>broker_host = host, broker_port = port, subscribers = [],
      message_history = [], max_history = 1000\<rparr>"

definition subscribers_get :: "MessageBus \<Rightarrow> string \<Rightarrow> handler list" where
  "subscribers_get bus t = (case map_of (subscribers bus) t of None \<Rightarrow> [] | Some hs \<Rightarrow> hs)"

definition subscribe :: "MessageBus \<Rightarrow> string \<Rightarrow> handler \<Rightarrow> MessageBus" where
  "subscribe bus t h =
     (let subs = (if t \<in> set (map fst (subscribers bus)) then subscribers bus
                  else subscribers bus @ [(t, [])])
      in bus\<lparr>subscribers := map (\<lambda>(k, hs). if k = t then (k, hs @ [h]) else (k, hs)) subs\<rparr>)"

definition restricted :: "string list" where
  "restricted = [''password'', ''secret'', ''api_key'']"

text \<open>
  \<open>for field in str(message.payload).lower(): if field in restricted: return False\<close>:
  the loop variable is one character of the string form, and \<open>field in restricted\<close>
  is membership of that one-character string in the list.
\<close>

fun scan_fields :: "string \<Rightarrow> bool" where
  "scan_fields [] = True"
| "scan_fields (field # rest) = (if [field] \<in> set restricted then False else scan_fields rest)"

definition check_compliance :: "NeuralMessage \<Rightarrow> bool" where
  "check_compliance message = scan_fields (lower (py_str (PDict (payload message))))"

fun run_handlers :: "handler list \<Rightarrow> NeuralMessage \<Rightarrow> (string \<times> outcome) list
    \<Rightarrow> NeuralMessage \<times> (string \<times> outcome) list" where
  "run_handlers [] m tr = (m, tr)"
| "run_handlers (h # hs) m tr =
     (case hcall h m of (out, m') \<Rightarrow> run_handlers hs m' (tr @ [(hname h, out)]))"

definition publish :: "MessageBus \<Rightarrow> NeuralMessage
    \<Rightarrow> bool \<times> MessageBus \<times> NeuralMessage \<times> (string \<times> outcome) list" where
  "publish bus message =
     (if \<not> check_compliance message then (False, bus, message, [])
      else
        (case run_handlers (subscribers_get bus (topic message)) message [] of
          (m', tr) \<Rightarrow>
            let hist = message_history bus @ [m'];
                hist' = (if int (length hist) > max_history bus then tl hist else hist)
            in (True, bus\<lparr>message_history := hist'\<rparr>, m', tr)))"

text \<open>What the compliance gate is meant to look for: a restricted word as a substring.\<close>

definition mentions_restricted :: "NeuralMessage \<Rightarrow> bool" where
  "mentions_restricted message =
     (\<exists>r \<in> set restricted. py_in r (lower (py_str (PDict (payload message)))))"

section \<open>The context refiner's entry point (context\_refiner.py)\<close>

text \<open>
  \<open>refine_en_route\<close> counts the message, then calls \<open>message.context.add_hop\<close>.
  Calling a method of a context looks the name up in what the class
  \<open>EnRouteContext\<close> defines: its body has the nine fields and \<open>__post_init__\<close>, and
  nothing else. A name that is not there raises \<open>AttributeError\<close>; a field is not
  callable. The stages after the hop (the dispatch on the focus mode, compression,
  deduplication, pruning) are the parameter \<open>stages\<close>.
\<close>

record ContextRefiner =
  ollama_url :: string
  total_messages :: int
  avg_compression :: real
  avg_relevance :: real
  filtered_count :: int

definition EnRouteContext_fields :: "string list" where
  "EnRouteContext_fields =
     [''original_size'', ''current_size'', ''compression_ratio'', ''relevance_score'',
      ''filtered_elements'', ''focus_mode'', ''timestamp'', ''hops'', ''refinements'']"

definition EnRouteContext_methods ::
    "(string \<times> (EnRouteContext \<Rightarrow> pyval list \<Rightarrow> error + EnRouteContext)) list" where
  "EnRouteContext_methods =
     [(''__post_init__'', \<lambda>ctx args. if args = [] then Inr ctx else Inl TypeError)]"

definition call_context_method :: "EnRouteContext \<Rightarrow> string \<Rightarrow> pyval list
    \<Rightarrow> error + EnRouteContext" where
  "call_context_method ctx name args =
     (case map_of EnRouteContext_methods name of
        Some f \<Rightarrow> f ctx args
      | None \<Rightarrow>
          if name \<in> set EnRouteContext_fields then Inl TypeError
          else Inl (AttributeError name))"

definition refine_en_route ::
    "(ContextRefiner \<Rightarrow> NeuralMessage \<Rightarrow> ContextRefiner \<times> (error + NeuralMessage))
     \<Rightarrow> ContextRefiner \<Rightarrow> NeuralMessage \<Rightarrow> string
     \<Rightarrow> ContextRefiner \<times> (error + NeuralMessage)" where
  "refine_en_route stages self message processor_id =
     (let self1 = self\<lparr>total_messages := total_messages self + 1\<rparr>
      in case call_context_method (msg_context message) ''add_hop'' [PStr processor_id] of
           Inl e \<Rightarrow> (self1, Inl e)
         | Inr ctx \<Rightarrow> stages self1 (message\<lparr>msg_context := ctx\<rparr>))"

section \<open>The relevance scorer (context\_refiner.py)\<close>

record relevance_result =
  score :: real
  relevant :: bool
  matching_keywords :: "string list"
  reasoning :: string

text \<open>\<open>focus_weights\<close>: per mode, the weights \<open>keyword_match\<close> and \<open>semantic\<close>.\<close>

definition focus_weights :: "(FocusMode \<times> real \<times> real) list" where
  "focus_weights =
     [(RELEVANCE, 0.6, 0.4),
      (EXTRACTION, 0.7, 0.3),
      (ANALYSIS, 0.3, 0.7),
      (SUMMARIZATION, 0.4, 0.6),
      (NAVIGATION, 0.8, 0.2)]"

definition keyword_match_weight :: "FocusMode \<Rightarrow> real" where
  "keyword_match_weight fm =
     fst (case map_of focus_weights fm of None \<Rightarrow> (0.5, 0.5) | Some w \<Rightarrow> w)"

text \<open>\<open>str.find\<close> as an integer, \<open>-1\<close> when the pattern does not occur.\<close>

definition py_find_int :: "string \<Rightarrow> string \<Rightarrow> int" where
  "py_find_int s sub = (case py_find s sub of None \<Rightarrow> - 1 | Some i \<Rightarrow> int i)"

text \<open>The score appended for a keyword that occurs in the content.\<close>

definition keyword_score :: "string \<Rightarrow> string \<Rightarrow> string \<Rightarrow> real" where
  "keyword_score content content_lower keyword =
     (let count = py_count content_lower (lower keyword);
          position = py_find_int content_lower (lower keyword);
          position_score = 1 - real_of_int position / real (max (length content) 1);
          frequency_score = min (real count / 5) 1
      in (position_score + frequency_score) / 2)"

fun scan_keywords :: "string \<Rightarrow> string \<Rightarrow> string list \<Rightarrow> real list \<Rightarrow> string list
    \<Rightarrow> real list \<times> string list" where
  "scan_keywords content content_lower [] keyword_scores matched = (keyword_scores, matched)"
| "scan_keywords content content_lower (keyword # rest) keyword_scores matched =
     (if py_in (lower keyword) content_lower
      then scan_keywords content content_lower rest
             (keyword_scores @ [keyword_score content content_lower keyword])
             (matched @ [keyword])
      else scan_keywords content content_lower rest keyword_scores matched)"

definition score_relevance :: "string \<Rightarrow> string list \<Rightarrow> FocusMode \<Rightarrow> real \<Rightarrow> relevance_result" where
  "score_relevance content kws fm threshold =
     (if content = [] \<or> kws = []
      then \<lparr>score = 0.5, relevant = True, matching_keywords = [], reasoning = ''no content''\<rparr>
      else
        (case scan_keywords content (lower content) kws [] [] of
          (keyword_scores, matched) \<Rightarrow>
            let avg_score = (if keyword_scores \<noteq> []
                             then sum_list keyword_scores / real (length keyword_scores)
                             else 0);
                final_score = avg_score * keyword_match_weight fm
            in \<lparr>score = min final_score 1,
                relevant = (final_score \<ge> threshold),
                matching_keywords = matched,
                reasoning = ''Matched '' @ dec_nat (length matched) @ ''/''
                              @ dec_nat (length kws) @ '' keywords''\<rparr>))"

subsection \<open>The scorer as the specification words it\<close>

text \<open>
  For each keyword present, case-insensitively, in the content: the position score
  \<open>1 - firstIndex / contentLength\<close>, the frequency score \<open>min (occurrenceCount / 5) 1\<close>
  and their average; the raw score is the mean over the keywords present, 0 if there
  is none; the final score is the raw score times the mode's weight.
\<close>

definition spec_present :: "string \<Rightarrow> string list \<Rightarrow> string list" where
  "spec_present content kws = filter (\<lambda>k. py_in (lower k) (lower content)) kws"

definition spec_mode_weight :: "FocusMode \<Rightarrow> real" where
  "spec_mode_weight fm =
     (case fm of RELEVANCE \<Rightarrow> 0.6 | EXTRACTION \<Rightarrow> 0.7 | ANALYSIS \<Rightarrow> 0.3
               | SUMMARIZATION \<Rightarrow> 0.4 | NAVIGATION \<Rightarrow> 0.8 | _ \<Rightarrow> 0.5)"

definition spec_component :: "string \<Rightarrow> string \<Rightarrow> real" where
  "spec_component content k =
     ((1 - real (case py_find (lower content) (lower k) of None \<Rightarrow> 0 | Some i \<Rightarrow> i)
             / real (length content))
      + min (real (py_count (lower content) (lower k)) / 5) 1) / 2"

definition spec_raw_score :: "string \<Rightarrow> string list \<Rightarrow> real" where
  "spec_raw_score content kws =
     (if spec_present content kws = [] then 0
      else sum_list (map (spec_component content) (spec_present content kws))
           / real (length (spec_present content kws)))"

definition spec_final_score :: "string \<Rightarrow> string list \<Rightarrow> FocusMode \<Rightarrow> real" where
  "spec_final_score content kws fm = spec_raw_score content kws * spec_mode_weight fm"

section \<open>The constitution and its reviewers (darwin.py)\<close>

definition CONSTITUTION_MUST_HAVES :: "string list" where
  "CONSTITUTION_MUST_HAVES =
     [''permeable_ai'', ''fastest_protocol'', ''dna_carried'', ''refine_en_route'']"

definition CONSTITUTION_CANNOT_HAVES :: "string list" where
  "CONSTITUTION_CANNOT_HAVES =
     [''vendor_lockin'', ''centralized_dead_man_switch'', ''black_box_ai'',
      ''single_point_of_failure'']"

record ConstitutionalReview =
  approved :: bool
  issues :: "string list"
  review_timestamp :: real
  darwin_signature :: "string option"
  approval_score :: real

text \<open>The loop of \<open>_calculate_approval_score\<close>, one issue at a time.\<close>

definition deduct :: "real \<Rightarrow> string \<Rightarrow> real" where
  "deduct sc issue =
     (if py_in ''Missing required'' issue then sc - 0.1
      else if py_in ''Violates constraint'' issue then sc - 0.2
      else if py_in ''Violates spirit'' issue then sc - 0.15
      else sc)"

definition calculate_approval_score :: "bool \<Rightarrow> string list \<Rightarrow> real" where
  "calculate_approval_score appr iss =
     (if \<not> appr then 0 else max 0 (foldl deduct 1 iss))"

text \<open>\<open>ConstitutionalReview.__init__\<close>; \<open>timestamp or time.time()\<close> reads the clock
  when the timestamp is absent or zero.\<close>

definition ConstitutionalReview_new :: "real \<Rightarrow> bool \<Rightarrow> string list \<Rightarrow> real option
    \<Rightarrow> string option \<Rightarrow> ConstitutionalReview" where
  "ConstitutionalReview_new now appr iss ts sig =
     \<lparr>approved = appr,
      issues = iss,
      review_timestamp = (case ts of None \<Rightarrow> now | Some t \<Rightarrow> if t = 0 then now else t),
      darwin_signature = sig,
      approval_score = calculate_approval_score appr iss\<rparr>"

subsection \<open>Tier 3: the enforcer's review\<close>

text \<open>
  \<open>_check_spirit\<close> returns \<open>False\<close> for a restrictive mutation and otherwise the
  value of \<open>permeable or 'efficiency' in mutation or 'optimization' in mutation\<close>, of
  which \<open>review_mutation\<close> takes the truth value.
\<close>

definition check_spirit :: "pydict \<Rightarrow> bool" where
  "check_spirit mutation =
     (if truthy (dict_get mutation ''restrictive'' PNone) then False
      else truthy (dict_get mutation ''permeable_ai'' (PBool False))
           \<or> has_key mutation ''efficiency'' \<or> has_key mutation ''optimization'')"

definition review_mutation :: "real \<Rightarrow> pydict \<Rightarrow> ConstitutionalReview" where
  "review_mutation now mutation =
     (let iss =
        map (\<lambda>required. ''Missing required: '' @ required)
          (filter (\<lambda>required. \<not> has_key mutation required) CONSTITUTION_MUST_HAVES)
        @ map (\<lambda>forbidden. ''Violates constraint: '' @ forbidden)
          (filter (\<lambda>forbidden. has_key mutation forbidden) CONSTITUTION_CANNOT_HAVES)
        @ (if \<not> check_spirit mutation then [''Violates spirit of open permeability''] else [])
      in ConstitutionalReview_new now (length iss = 0) iss (Some now) None)"

subsection \<open>Tier 2: the strategy evolver's own review and patch\<close>

text \<open>
  \<open>_review_constitution\<close> looks for each marker in \<open>str(evolution)\<close>, the string
  form of the whole proposal, and has no spirit check.
\<close>

definition review_constitution :: "real \<Rightarrow> pydict \<Rightarrow> ConstitutionalReview" where
  "review_constitution now evolution =
     (let iss =
        map (\<lambda>required. ''Missing required: '' @ required)
          (filter (\<lambda>required. \<not> py_in required (py_str (PDict evolution)))
             CONSTITUTION_MUST_HAVES)
        @ map (\<lambda>forbidden. ''Violates constraint: '' @ forbidden)
          (filter (\<lambda>forbidden. py_in forbidden (py_str (PDict evolution)))
             CONSTITUTION_CANNOT_HAVES)
      in ConstitutionalReview_new now (length iss = 0) iss None None)"

text \<open>\<open>d[k] = v\<close> keeps the position of a key already there; \<open>del d[k]\<close>.\<close>

fun dict_set :: "pydict \<Rightarrow> string \<Rightarrow> pyval \<Rightarrow> pydict" where
  "dict_set [] k v = [(k, v)]"
| "dict_set ((k', v') # d) k v =
     (if k' = k then (k, v) # d else (k', v') # dict_set d k v)"

definition dict_del :: "pydict \<Rightarrow> string \<Rightarrow> pydict" where
  "dict_del d k = filter (\<lambda>kv. fst kv \<noteq> k) d"

definition patch_for_constitution :: "pydict \<Rightarrow> ConstitutionalReview \<Rightarrow> pydict" where
  "patch_for_constitution evolution review =
     (let patched1 =
            fold (\<lambda>required patched.
                    if \<not> py_in required (py_str (PDict patched))
                    then dict_set patched required (PBool True) else patched)
              CONSTITUTION_MUST_HAVES evolution;
          patched2 =
            fold (\<lambda>forbidden patched.
                    if has_key patched forbidden then dict_del patched forbidden else patched)
              CONSTITUTION_CANNOT_HAVES patched1;
          patched3 = dict_set patched2 ''constitution_patched'' (PBool True)
      in dict_set patched3 ''original_issues'' (PList (map PStr (issues review))))"

record DarwinLLM =
  min_samples_for_evolution :: int
  evolution_history :: "pydict list"

text \<open>
  \<open>evolve_strategy\<close>. The proposal is what \<open>_parse_evolution\<close> makes of the
  collaborator's answer to the prompt built from the outcome samples; the collaborator
  being outside the repository, \<open>propose\<close> stands for prompt, call and parse together.
\<close>

definition evolve_strategy ::
    "(string \<Rightarrow> pydict list \<Rightarrow> pydict list \<Rightarrow> pydict) \<Rightarrow> real \<Rightarrow> DarwinLLM \<Rightarrow> string
     \<Rightarrow> pydict list \<Rightarrow> pydict list \<Rightarrow> DarwinLLM \<times> pydict" where
  "evolve_strategy propose now self task_type successes failures =
     (let total_samples = int (length successes) + int (length failures)
      in if total_samples < min_samples_for_evolution self
         then (self, [(''status'', PStr ''insufficient_data'')])
         else
           let evolved = propose task_type successes failures;
               review = review_constitution now evolved;
               evolved1 = (if \<not> approved review then patch_for_constitution evolved review
                           else evolved);
               evolved2 = dict_set evolved1 ''timestamp'' (PFloat now);
               evolved3 = dict_set evolved2 ''task_type'' (PStr task_type);
               evolved4 = dict_set evolved3 ''sample_count'' (PInt total_samples)
           in (self\<lparr>evolution_history := evolution_history self @ [evolved4]\<rparr>, evolved4))"

text \<open>The score as the specification words it: a deduction per issue of each kind,
  floored at zero.\<close>

definition claimed_approval_score :: "string list \<Rightarrow> real" where
  "claimed_approval_score iss =
     max 0 (1 - 0.1 * real (length (filter (py_in ''Missing required'') iss))
              - 0.2 * real (length (filter (py_in ''Violates constraint'') iss))
              - 0.15 * real (length (filter (py_in ''Violates spirit'') iss)))"

section \<open>Tier 1: the genetic optimizer (darwin.py)\<close>




subsection \<open>Scoring a candidate\<close>




subsection \<open>Random draws, the clock and the fingerprint\<close>







subsection \<open>Mutation and crossover\<close>





subsection \<open>One generation\<close>












section \<open>Results on the message bus\<close>

text \<open>
  The envelope \<open>{'password': 'hunter2'}\<close> published on a fresh bus, as
  \<open>NeuralMessage(topic='auth/login', payload={'password': 'hunter2'})\<close> builds it.
\<close>

definition leaky_message :: NeuralMessage where
  "leaky_message =
     NeuralMessage_new ''0a1b2c3d'' 1700000000 1700000000 None ''auth/login'' None None
       (Some [(''password'', PStr ''hunter2'')]) None [] [] 0 300 False None True"

subsection \<open>The compliance gate\<close>

lemma scan_fields_passes: "scan_fields s"
  by (induction s) (simp_all add: restricted_def)

lemma check_compliance_passes: "check_compliance message"
  by (simp add: check_compliance_def scan_fields_passes)

lemma run_handlers_trace:
  "run_handlers hs m tr = (m', tr') \<Longrightarrow> map fst tr' = map fst tr @ map hname hs"
proof (induction hs arbitrary: m tr)
  case Nil
  then show ?case by simp
next
  case (Cons h hs)
  obtain out m1 where call: "hcall h m = (out, m1)"
    by (cases "hcall h m")
  from Cons.prems call have "run_handlers hs m1 (tr @ [(hname h, out)]) = (m', tr')"
    by simp
  from Cons.IH [OF this] show ?case by simp
qed

lemma leaky_payload_str:
  "lower (py_str (PDict (payload leaky_message))) = ''{'password': 'hunter2'}''"
  by (simp add: leaky_message_def NeuralMessage_new_def py_str_def str_repr_def
      escape_char_def lower_def lower_char_def)

text \<open>
  C1. The gate is meant to reject a payload whose lowercase string form contains
  \<open>password\<close>, \<open>secret\<close> or \<open>api_key\<close>. The payload \<open>{'password': 'hunter2'}\<close>
  does contain \<open>password\<close>, yet \<open>publish\<close> returns \<open>True\<close> and records the
  envelope: the loop of \<open>_check_compliance\<close> compares single characters with the
  restricted words, which never match.
\<close>

theorem publish_accepts_restricted_payload:
  "mentions_restricted leaky_message \<and>
   publish (MessageBus_init ''localhost'' 1883) leaky_message =
     (True,
      (MessageBus_init ''localhost'' 1883)\<lparr>message_history := [leaky_message]\<rparr>,
      leaky_message, [])"
proof
  show "mentions_restricted leaky_message"
    unfolding mentions_restricted_def leaky_payload_str
    by (simp add: restricted_def py_in_def)
  show "publish (MessageBus_init ''localhost'' 1883) leaky_message =
     (True,
      (MessageBus_init ''localhost'' 1883)\<lparr>message_history := [leaky_message]\<rparr>,
      leaky_message, [])"
    by (simp add: publish_def check_compliance_passes subscribers_get_def MessageBus_init_def)
qed

subsection \<open>Dispatch and history\<close>

text \<open>A handler that raises, followed by one that marks the envelope it was given.\<close>

definition failing_handler :: handler where
  "failing_handler = \<lparr>hname = ''A'', hcall = (\<lambda>m. (Raises, m))\<rparr>"

definition marking_handler :: handler where
  "marking_handler =
     \<lparr>hname = ''B'', hcall = (\<lambda>m. (Returns, m\<lparr>payload := payload m @ [(''seen'', PBool True)]\<rparr>))\<rparr>"

definition plain_message :: NeuralMessage where
  "plain_message =
     NeuralMessage_new ''feedc0de'' 1700000000 1700000000 None ''scrape/request'' None None
       (Some [(''url'', PStr ''https://example.com'')]) None [] [] 0 300 False None True"

definition two_handler_bus :: MessageBus where
  "two_handler_bus =
     subscribe (subscribe (MessageBus_init ''localhost'' 1883) ''scrape/request'' failing_handler)
       ''scrape/request'' marking_handler"

text \<open>
  C9. When the envelope passes the compliance gate, \<open>publish\<close> returns \<open>True\<close>;
  the calls it makes are exactly the handlers subscribed to the topic, in subscription
  order, whatever each of them does (return or raise); the envelope (as the handlers
  left it) is the last entry of the history afterwards; and, the capacity being the
  1000 that \<open>__init__\<close> sets, a history of at most 1000 entries stays at most 1000
  long, losing its oldest entry when it was full.
\<close>

theorem publish_isolates_handlers:
  assumes gate: "check_compliance message"
    and cap: "max_history bus = 1000"
    and res: "publish bus message = (ok, bus', m', tr)"
  shows "ok = True \<and>
         map fst tr = map hname (subscribers_get bus (topic message)) \<and>
         message_history bus' \<noteq> [] \<and> last (message_history bus') = m' \<and>
         (length (message_history bus) \<le> 1000 \<longrightarrow>
            length (message_history bus') \<le> 1000 \<and>
            message_history bus' =
              (if length (message_history bus) = 1000
               then tl (message_history bus) @ [m'] else message_history bus @ [m']))"
proof -
  obtain m1 tr1 where run:
    "run_handlers (subscribers_get bus (topic message)) message [] = (m1, tr1)"
    by (cases "run_handlers (subscribers_get bus (topic message)) message []")
  define hist where "hist = message_history bus @ [m1]"
  define hist' where "hist' = (if int (length hist) > max_history bus then tl hist else hist)"
  from gate run have "publish bus message = (True, bus\<lparr>message_history := hist'\<rparr>, m1, tr1)"
    unfolding publish_def hist_def hist'_def Let_def by simp
  with res have parts:
    "ok = True" "bus' = bus\<lparr>message_history := hist'\<rparr>" "m' = m1" "tr = tr1"
    by simp_all
  from run_handlers_trace [OF run] parts(4)
  have order: "map fst tr = map hname (subscribers_get bus (topic message))" by simp
  have hh: "message_history bus' = hist'" using parts(2) by simp
  have recorded: "message_history bus' \<noteq> [] \<and> last (message_history bus') = m'"
  proof (cases "message_history bus")
    case Nil
    then show ?thesis
      using hh parts(3) cap by (simp add: hist'_def hist_def)
  next
    case (Cons a as)
    then show ?thesis
      using hh parts(3) cap by (simp add: hist'_def hist_def)
  qed
  have bounded: "length (message_history bus) \<le> 1000 \<longrightarrow>
         length (message_history bus') \<le> 1000 \<and>
         message_history bus' =
           (if length (message_history bus) = 1000
            then tl (message_history bus) @ [m'] else message_history bus @ [m'])"
  proof (cases "message_history bus")
    case Nil
    then show ?thesis
      using hh parts(3) cap by (simp add: hist'_def hist_def)
  next
    case (Cons a as)
    then show ?thesis
      using hh parts(3) cap by (auto simp add: hist'_def hist_def)
  qed
  from parts(1) order recorded bounded show ?thesis by blast
qed

theorem publish_isolates_handlers_witness:
  "check_compliance plain_message \<and>
   publish two_handler_bus plain_message =
     (True,
      two_handler_bus\<lparr>message_history :=
        [plain_message\<lparr>payload := payload plain_message @ [(''seen'', PBool True)]\<rparr>]\<rparr>,
      plain_message\<lparr>payload := payload plain_message @ [(''seen'', PBool True)]\<rparr>,
      [(''A'', Raises), (''B'', Returns)]) \<and>
   map fst [(''A'', Raises), (''B'', Returns)] =
     map hname (subscribers_get two_handler_bus (topic plain_message))"
proof -
  have gate: "check_compliance plain_message"
    by (rule check_compliance_passes)
  have subs: "subscribers_get two_handler_bus ''scrape/request'' = [failing_handler, marking_handler]"
    by (simp add: two_handler_bus_def subscribe_def MessageBus_init_def subscribers_get_def)
  have top: "topic plain_message = ''scrape/request''"
    by (simp add: plain_message_def NeuralMessage_new_def)
  have hist: "message_history two_handler_bus = []" "max_history two_handler_bus = 1000"
    by (simp_all add: two_handler_bus_def subscribe_def MessageBus_init_def)
  have res: "publish two_handler_bus plain_message =
     (True,
      two_handler_bus\<lparr>message_history :=
        [plain_message\<lparr>payload := payload plain_message @ [(''seen'', PBool True)]\<rparr>]\<rparr>,
      plain_message\<lparr>payload := payload plain_message @ [(''seen'', PBool True)]\<rparr>,
      [(''A'', Raises), (''B'', Returns)])"
    by (simp add: publish_def gate subs top hist failing_handler_def marking_handler_def)
  from publish_isolates_handlers [OF gate hist(2) res] gate res show ?thesis
    by simp
qed

section \<open>Results on the refiner's entry point\<close>

text \<open>
  C2. \<open>refine_en_route\<close> is meant to increment the hop counter and record the
  processor id, and not to fail there. For every envelope, every processor id and
  whatever the later stages are, it raises \<open>AttributeError\<close> at that step, having only
  counted the message: \<open>EnRouteContext\<close> has no \<open>add_hop\<close>.
\<close>

theorem refine_en_route_raises:
  "refine_en_route stages self message processor_id =
     (self\<lparr>total_messages := total_messages self + 1\<rparr>, Inl (AttributeError ''add_hop''))"
  by (simp add: refine_en_route_def call_context_method_def EnRouteContext_methods_def
      EnRouteContext_fields_def)

section \<open>Results on the wire codec\<close>









section \<open>Results on the constitution\<close>

text \<open>Three proposals: one required marker short, all markers but restrictive, all markers.\<close>

definition one_marker_short :: pydict where
  "one_marker_short =
     [(''permeable_ai'', PBool True), (''dna_carried'', PBool True),
      (''refine_en_route'', PBool True)]"

definition restrictive_but_marked :: pydict where
  "restrictive_but_marked =
     [(''permeable_ai'', PBool True), (''fastest_protocol'', PBool True),
      (''dna_carried'', PBool True), (''refine_en_route'', PBool True),
      (''restrictive'', PBool True)]"

definition fully_marked :: pydict where
  "fully_marked =
     [(''permeable_ai'', PBool True), (''fastest_protocol'', PBool True),
      (''dna_carried'', PBool True), (''refine_en_route'', PBool True)]"

subsection \<open>The approval score\<close>

text \<open>An issue of one kind: it carries at most one of the three phrases the score looks for.\<close>

definition one_kind :: "string \<Rightarrow> bool" where
  "one_kind issue =
     (\<not> (py_in ''Missing required'' issue \<and> py_in ''Violates constraint'' issue) \<and>
      \<not> (py_in ''Missing required'' issue \<and> py_in ''Violates spirit'' issue) \<and>
      \<not> (py_in ''Violates constraint'' issue \<and> py_in ''Violates spirit'' issue))"

text \<open>The loop of deductions in closed form, for issues of one kind each.\<close>

lemma foldl_deduct:
  "list_all one_kind iss \<Longrightarrow>
   foldl deduct s iss =
     s - 0.1 * real (length (filter (py_in ''Missing required'') iss))
       - 0.2 * real (length (filter (py_in ''Violates constraint'') iss))
       - 0.15 * real (length (filter (py_in ''Violates spirit'') iss))"
proof (induction iss arbitrary: s)
  case Nil
  then show ?case by simp
next
  case (Cons i iss)
  then have rest: "list_all one_kind iss" and one: "one_kind i" by simp_all
  show ?case
    unfolding foldl_Cons Cons.IH [OF rest]
    using one by (auto simp add: deduct_def one_kind_def field_simps)
qed

lemma calculate_approval_score_approved:
  "list_all one_kind iss \<Longrightarrow> calculate_approval_score True iss = claimed_approval_score iss"
  by (simp add: calculate_approval_score_def claimed_approval_score_def foldl_deduct)

text \<open>
  C4, as the code has it. A review that \<open>review_mutation\<close> returns is approved
  exactly when it has no issue; its approval score is 0 when it is not approved, and
  otherwise 1.0 less 0.1, 0.2 and 0.15 per issue of the three kinds, floored at 0
  (which is 1.0, an approved review having no issue).
\<close>

theorem approval_score_by_design:
  "approved (review_mutation now m) = (issues (review_mutation now m) = []) \<and>
   approval_score (review_mutation now m) =
     (if approved (review_mutation now m)
      then claimed_approval_score (issues (review_mutation now m)) else 0)"
  by (simp add: review_mutation_def ConstitutionalReview_new_def Let_def
      calculate_approval_score_def claimed_approval_score_def)

text \<open>
  C4 as stated fails on a rejected review: with one required marker missing the score
  is 0, not 1.0 - 0.1.
\<close>

theorem approval_score_rejected_counterexample:
  "issues (review_mutation 1700000000 one_marker_short) = [''Missing required: fastest_protocol''] \<and>
   approval_score (review_mutation 1700000000 one_marker_short) = 0 \<and>
   claimed_approval_score (issues (review_mutation 1700000000 one_marker_short)) = 9 / 10"
proof -
  have iss: "issues (review_mutation 1700000000 one_marker_short) =
      [''Missing required: fastest_protocol'']"
    by (simp add: review_mutation_def one_marker_short_def has_key_def check_spirit_def
        dict_get_def CONSTITUTION_MUST_HAVES_def CONSTITUTION_CANNOT_HAVES_def
        ConstitutionalReview_new_def Let_def)
  have sc: "approval_score (review_mutation 1700000000 one_marker_short) = 0"
    by (simp add: review_mutation_def ConstitutionalReview_new_def calculate_approval_score_def
        Let_def CONSTITUTION_MUST_HAVES_def one_marker_short_def has_key_def)
  have cl: "claimed_approval_score [''Missing required: fastest_protocol''] = 9 / 10"
    by (simp add: claimed_approval_score_def py_in_def)
  from iss sc cl show ?thesis by simp
qed

subsection \<open>Tier 2 against Tier 3\<close>

lemma restrictive_but_marked_str:
  "py_str (PDict restrictive_but_marked) =
    ''{'permeable_ai': True, 'fastest_protocol': True, 'dna_carried': True, 'refine_en_route': True, 'restrictive': True}''"
  by (simp add: restrictive_but_marked_def py_str_def str_repr_def escape_char_def)

text \<open>
  C5 as stated fails: a proposal flagged restrictive that carries all four required
  markers is approved without issue by Tier 2's review and rejected by Tier 3's, for
  the spirit of the constitution.
\<close>

theorem tier2_review_counterexample:
  "approved (review_constitution 1700000000 restrictive_but_marked) \<and>
   issues (review_constitution 1700000000 restrictive_but_marked) = [] \<and>
   \<not> approved (review_mutation 1700000000 restrictive_but_marked) \<and>
   issues (review_mutation 1700000000 restrictive_but_marked) =
     [''Violates spirit of open permeability'']"
proof -
  have t2: "issues (review_constitution 1700000000 restrictive_but_marked) = []"
    unfolding review_constitution_def restrictive_but_marked_str
    by (simp add: CONSTITUTION_MUST_HAVES_def CONSTITUTION_CANNOT_HAVES_def py_in_def
        ConstitutionalReview_new_def Let_def)
  have a2: "approved (review_constitution now d) = (issues (review_constitution now d) = [])"
    for now d
    by (simp add: review_constitution_def ConstitutionalReview_new_def Let_def)
  have t3: "issues (review_mutation 1700000000 restrictive_but_marked) =
      [''Violates spirit of open permeability'']"
    by (simp add: review_mutation_def restrictive_but_marked_def has_key_def check_spirit_def
        dict_get_def CONSTITUTION_MUST_HAVES_def CONSTITUTION_CANNOT_HAVES_def
        ConstitutionalReview_new_def Let_def)
  have a3: "approved (review_mutation now d) = (issues (review_mutation now d) = [])"
    for now d
    by (simp add: review_mutation_def ConstitutionalReview_new_def Let_def)
  from t2 t3 a2 a3 show ?thesis by simp
qed

text \<open>
  C5, as the code has it. Tier 2 runs its own review, on the string form of the
  proposal and without the spirit check. It gives the same approved flag and the same
  issue list as Tier 3's \<open>review_mutation\<close> for every proposal in whose string
  form each required or forbidden marker occurs exactly when it is a key of the
  proposal, and which passes Tier 3's spirit check.
\<close>

theorem tier2_review_agrees:
  assumes markers: "\<forall>k \<in> set (CONSTITUTION_MUST_HAVES @ CONSTITUTION_CANNOT_HAVES).
      py_in k (py_str (PDict d)) = has_key d k"
    and spirit: "check_spirit d"
  shows "approved (review_constitution now d) = approved (review_mutation now' d) \<and>
         issues (review_constitution now d) = issues (review_mutation now' d)"
proof -
  have must: "filter (\<lambda>required. \<not> py_in required (py_str (PDict d))) CONSTITUTION_MUST_HAVES =
      filter (\<lambda>required. \<not> has_key d required) CONSTITUTION_MUST_HAVES"
    using markers by (intro filter_cong) auto
  have cannot: "filter (\<lambda>forbidden. py_in forbidden (py_str (PDict d))) CONSTITUTION_CANNOT_HAVES =
      filter (\<lambda>forbidden. has_key d forbidden) CONSTITUTION_CANNOT_HAVES"
    using markers by (intro filter_cong) auto
  show ?thesis
    using spirit
    by (simp add: review_constitution_def review_mutation_def must cannot
        ConstitutionalReview_new_def Let_def)
qed

lemma fully_marked_str:
  "py_str (PDict fully_marked) =
    ''{'permeable_ai': True, 'fastest_protocol': True, 'dna_carried': True, 'refine_en_route': True}''"
  by (simp add: fully_marked_def py_str_def str_repr_def escape_char_def)

theorem tier2_review_agrees_witness:
  "(py_in ''permeable_ai'' (py_str (PDict fully_marked)) \<and> has_key fully_marked ''permeable_ai'') \<and>
   (\<not> py_in ''vendor_lockin'' (py_str (PDict fully_marked)) \<and> \<not> has_key fully_marked ''vendor_lockin'') \<and>
   check_spirit fully_marked \<and>
   approved (review_constitution 1700000000 fully_marked) \<and>
   approved (review_mutation 1700000000 fully_marked) \<and>
   issues (review_constitution 1700000000 fully_marked) = [] \<and>
   issues (review_mutation 1700000000 fully_marked) = []"
proof -
  have keys: "has_key fully_marked k = (k \<in> set CONSTITUTION_MUST_HAVES)" for k
    by (auto simp add: fully_marked_def has_key_def CONSTITUTION_MUST_HAVES_def)
  have markers: "\<forall>k \<in> set (CONSTITUTION_MUST_HAVES @ CONSTITUTION_CANNOT_HAVES).
      py_in k (py_str (PDict fully_marked)) = has_key fully_marked k"
    unfolding fully_marked_str keys
    by (simp add: CONSTITUTION_MUST_HAVES_def CONSTITUTION_CANNOT_HAVES_def py_in_def)
  have spirit: "check_spirit fully_marked"
    by (simp add: check_spirit_def fully_marked_def dict_get_def)
  have t3: "issues (review_mutation 1700000000 fully_marked) = []"
    using spirit
    by (simp add: review_mutation_def keys CONSTITUTION_MUST_HAVES_def
        CONSTITUTION_CANNOT_HAVES_def ConstitutionalReview_new_def Let_def)
  have a3: "approved (review_mutation 1700000000 fully_marked)"
    using t3 by (simp add: review_mutation_def ConstitutionalReview_new_def Let_def)
  have inst: "py_in ''permeable_ai'' (py_str (PDict fully_marked)) = has_key fully_marked ''permeable_ai''"
      "py_in ''vendor_lockin'' (py_str (PDict fully_marked)) = has_key fully_marked ''vendor_lockin''"
    using markers by (simp_all add: CONSTITUTION_MUST_HAVES_def CONSTITUTION_CANNOT_HAVES_def)
  have k1: "has_key fully_marked ''permeable_ai''" "\<not> has_key fully_marked ''vendor_lockin''"
    by (simp_all add: keys CONSTITUTION_MUST_HAVES_def)
  from tier2_review_agrees [OF markers spirit, of 1700000000 1700000000] t3 a3 inst k1 spirit
  show ?thesis by simp
qed

section \<open>Results on the relevance scorer\<close>

lemma keyword_match_weight_spec: "keyword_match_weight fm = spec_mode_weight fm"
  by (cases fm) (simp_all add: keyword_match_weight_def focus_weights_def spec_mode_weight_def)

lemma keyword_match_weight_bounds: "0 < keyword_match_weight fm \<and> keyword_match_weight fm \<le> 0.8"
  by (cases fm) (simp_all add: keyword_match_weight_def focus_weights_def)

text \<open>The first index of a pattern lies within the string, so a position score is in \<open>[0, 1]\<close>.\<close>

lemma py_find_le: "py_find s sub = Some i \<Longrightarrow> i \<le> length s"
proof (induction s arbitrary: i)
  case Nil
  then show ?case by (simp split: if_splits)
next
  case (Cons c cs)
  then show ?case by (auto split: if_splits)
qed

lemma length_lower: "length (lower s) = length s"
  by (simp add: lower_def)

text \<open>The loop over the keywords, with its two accumulators, as a filter and a map.\<close>

lemma scan_keywords_acc:
  "scan_keywords content cl kws acc matched =
     (acc @ map (keyword_score content cl) (filter (\<lambda>k. py_in (lower k) cl) kws),
      matched @ filter (\<lambda>k. py_in (lower k) cl) kws)"
  by (induction kws arbitrary: acc matched) simp_all

lemma keyword_score_spec:
  assumes "content \<noteq> []" and "py_in (lower k) (lower content)"
  shows "keyword_score content (lower content) k = spec_component content k"
proof -
  from assms(2) obtain i where i: "py_find (lower content) (lower k) = Some i"
    by (auto simp add: py_in_def)
  from assms(1) have len: "max (length content) (Suc 0) = length content"
    by (cases content) simp_all
  show ?thesis
    by (simp add: keyword_score_def spec_component_def py_find_int_def i len Let_def)
qed

lemma keyword_score_range:
  assumes "py_in (lower k) (lower content)"
  shows "0 \<le> keyword_score content (lower content) k \<and> keyword_score content (lower content) k \<le> 1"
proof -
  from assms obtain i where i: "py_find (lower content) (lower k) = Some i"
    by (auto simp add: py_in_def)
  from py_find_le [OF i] have le: "i \<le> length content"
    by (simp add: length_lower)
  define p where "p = real i / real (max (length content) 1)"
  define f where "f = min (real (py_count (lower content) (lower k)) / 5) 1"
  have frac: "0 \<le> p \<and> p \<le> 1"
    unfolding p_def using le by (auto simp add: divide_le_eq_1 max_def)
  have freq: "0 \<le> f \<and> f \<le> 1"
    unfolding f_def by simp
  have "keyword_score content (lower content) k = ((1 - p) + f) / 2"
    by (simp add: keyword_score_def py_find_int_def i Let_def p_def f_def)
  with frac freq show ?thesis by simp
qed

lemma sum_list_range:
  "(\<And>x. x \<in> set xs \<Longrightarrow> 0 \<le> x \<and> x \<le> (1::real)) \<Longrightarrow> 0 \<le> sum_list xs \<and> sum_list xs \<le> real (length xs)"
  by (induction xs) (simp_all, force)

lemma mean_range:
  assumes "\<And>x. x \<in> set xs \<Longrightarrow> 0 \<le> x \<and> x \<le> (1::real)" and "xs \<noteq> []"
  shows "0 \<le> sum_list xs / real (length xs) \<and> sum_list xs / real (length xs) \<le> 1"
proof -
  from sum_list_range [of xs] assms(1)
  have "0 \<le> sum_list xs \<and> sum_list xs \<le> real (length xs)" by blast
  moreover from assms(2) have "0 < real (length xs)" by simp
  ultimately show ?thesis by (simp add: divide_le_eq_1)
qed

lemma spec_raw_score_range:
  assumes "content \<noteq> []"
  shows "0 \<le> spec_raw_score content kws \<and> spec_raw_score content kws \<le> 1"
proof (cases "spec_present content kws = []")
  case True
  then show ?thesis by (simp add: spec_raw_score_def)
next
  case False
  have each: "0 \<le> x \<and> x \<le> 1" if "x \<in> set (map (spec_component content) (spec_present content kws))" for x
  proof -
    from that obtain k where k: "k \<in> set kws" "py_in (lower k) (lower content)"
        "x = spec_component content k"
      by (auto simp add: spec_present_def)
    from keyword_score_range [OF k(2)] keyword_score_spec [OF assms k(2)] k(3)
    show ?thesis by simp
  qed
  from False have ne: "map (spec_component content) (spec_present content kws) \<noteq> []" by simp
  from mean_range [OF each ne] False show ?thesis
    by (simp add: spec_raw_score_def)
qed

lemma scan_keywords_spec:
  assumes "content \<noteq> []"
  shows "scan_keywords content (lower content) kws [] [] =
     (map (spec_component content) (spec_present content kws), spec_present content kws)"
proof -
  have "map (keyword_score content (lower content)) (spec_present content kws) =
      map (spec_component content) (spec_present content kws)"
    by (rule map_cong) (auto simp add: spec_present_def keyword_score_spec [OF assms])
  then show ?thesis
    by (simp add: scan_keywords_acc spec_present_def)
qed

lemma score_relevance_final:
  assumes "content \<noteq> []" and "kws \<noteq> []"
  shows "score (score_relevance content kws fm threshold) = spec_final_score content kws fm"
    and "relevant (score_relevance content kws fm threshold) = (spec_final_score content kws fm \<ge> threshold)"
    and "matching_keywords (score_relevance content kws fm threshold) = spec_present content kws"
proof -
  have w: "0 < spec_mode_weight fm \<and> spec_mode_weight fm \<le> 0.8"
    using keyword_match_weight_bounds [of fm] by (simp add: keyword_match_weight_spec)
  from spec_raw_score_range [OF assms(1), of kws] w
  have "spec_raw_score content kws * spec_mode_weight fm \<le> 1 * 0.8"
    by (intro mult_mono) simp_all
  then have le1: "spec_final_score content kws fm \<le> 1"
    by (simp add: spec_final_score_def)
  show "score (score_relevance content kws fm threshold) = spec_final_score content kws fm"
    using assms le1
    by (cases "spec_present content kws = []")
      (simp_all add: score_relevance_def scan_keywords_spec Let_def spec_final_score_def
        spec_raw_score_def keyword_match_weight_spec)
  show "relevant (score_relevance content kws fm threshold) = (spec_final_score content kws fm \<ge> threshold)"
    using assms
    by (cases "spec_present content kws = []")
      (simp_all add: score_relevance_def scan_keywords_spec Let_def spec_final_score_def
        spec_raw_score_def keyword_match_weight_spec)
  show "matching_keywords (score_relevance content kws fm threshold) = spec_present content kws"
    using assms
    by (simp add: score_relevance_def scan_keywords_spec Let_def)
qed




text \<open>
  C10. For a non-empty content and a non-empty keyword list the score is at most the
  mode's keyword-match weight, which is at most 0.8; in relevance mode (weight 0.6)
  with a threshold above 0.6, the default 0.7 among them, the result is never relevant.
\<close>

theorem score_relevance_bounded_by_weight:
  assumes "content \<noteq> []" and "kws \<noteq> []"
  shows "score (score_relevance content kws fm threshold) \<le> keyword_match_weight fm \<and>
         keyword_match_weight fm \<le> 0.8 \<and>
         (fm = RELEVANCE \<and> threshold > 0.6 \<longrightarrow>
            \<not> relevant (score_relevance content kws fm threshold))"
proof -
  have w: "0 < keyword_match_weight fm \<and> keyword_match_weight fm \<le> 0.8"
    by (rule keyword_match_weight_bounds)
  from spec_raw_score_range [OF assms(1), of kws] w
  have "spec_raw_score content kws * keyword_match_weight fm \<le> 1 * keyword_match_weight fm"
    by (intro mult_right_mono) simp_all
  then have le: "spec_final_score content kws fm \<le> keyword_match_weight fm"
    by (simp add: spec_final_score_def keyword_match_weight_spec)
  have rel: "keyword_match_weight RELEVANCE = 0.6"
    by (simp add: keyword_match_weight_def focus_weights_def)
  from le rel w show ?thesis
    by (auto simp add: score_relevance_final [OF assms])
qed

theorem score_relevance_bounded_by_weight_witness:
  "''<h1>Price</h1> price list'' \<noteq> [] \<and> [''price'', ''cost''] \<noteq> [] \<and>
   score (score_relevance ''<h1>Price</h1> price list'' [''price'', ''cost''] RELEVANCE 0.7) \<le> 0.6 \<and>
   \<not> relevant (score_relevance ''<h1>Price</h1> price list'' [''price'', ''cost''] RELEVANCE 0.7)"
proof -
  have ne: "''<h1>Price</h1> price list'' \<noteq> []" "[''price'', ''cost''] \<noteq> []"
    by simp_all
  have rel: "keyword_match_weight RELEVANCE = 0.6"
    by (simp add: keyword_match_weight_def focus_weights_def)
  from score_relevance_bounded_by_weight [OF ne, of RELEVANCE "0.7"] rel ne
  show ?thesis by simp
qed

section \<open>Results on the genetic optimizer\<close>








subsection \<open>Ranking and survivors\<close>










subsection \<open>The size of the next generation\<close>







end
